theory Spec2Isabelle
  imports Main
begin

section \<open>JavaScript values used by the frontend\<close>

text \<open>
  The frontend (\<^verbatim>\<open>frontend/src/App.js\<close>) handles strings, JSON values and the
  value \<^verbatim>\<open>null\<close>/\<^verbatim>\<open>undefined\<close>. A nullable string is a \<open>string option\<close>; a JSON value is
  the datatype below; a property that is missing (\<^verbatim>\<open>undefined\<close>) is \<open>None\<close>.
  Numbers are modelled as unbounded integers: the credential's \<^verbatim>\<open>exp\<close> is a Unix-epoch
  second count and \<^verbatim>\<open>Date.now()\<close> an integral millisecond count; \<^verbatim>\<open>NaN\<close> is the \<open>None\<close> of
  \<open>int option\<close>. An object is the list of its own properties, every key once. A string
  is a list of 8-bit characters, which is the range of a string that \<^verbatim>\<open>atob\<close> accepts or
  returns.
\<close>

datatype json =
    JNull
  | JBool bool
  | JNum int
  | JStr string
  | JArr "json list"
  | JObj "(string \<times> json) list"

datatype js_error = InvalidCharacterError | SyntaxError | TypeError

text \<open>Truthiness, as \<^verbatim>\<open>if (x)\<close> and \<^verbatim>\<open>x || y\<close> test it.\<close>

fun truthy_string :: "string option \<Rightarrow> bool" where
  "truthy_string None = False"
| "truthy_string (Some s) = (s \<noteq> [])"

fun truthy_json :: "json \<Rightarrow> bool" where
  "truthy_json JNull = False"
| "truthy_json (JBool b) = b"
| "truthy_json (JNum n) = (n \<noteq> 0)"
| "truthy_json (JStr s) = (s \<noteq> [])"
| "truthy_json (JArr xs) = True"
| "truthy_json (JObj kvs) = True"

fun truthy_data :: "json option \<Rightarrow> bool" where
  "truthy_data None = False"
| "truthy_data (Some v) = truthy_json v"

text \<open>
  Reading a property \<^verbatim>\<open>v.k\<close>: a \<^verbatim>\<open>TypeError\<close> on \<^verbatim>\<open>null\<close>, the own property of an
  object, and \<^verbatim>\<open>undefined\<close> on the other values (the keys read by the frontend,
  \<^verbatim>\<open>exp\<close>, \<^verbatim>\<open>user_id\<close> and \<^verbatim>\<open>user_type\<close>, are no built-in properties of strings,
  numbers, booleans or arrays).
\<close>

fun member_read :: "json \<Rightarrow> string \<Rightarrow> js_error + json option" where
  "member_read JNull k = Inl TypeError"
| "member_read (JObj kvs) k = Inr (map_of kvs k)"
| "member_read v k = Inr None"

text \<open>
  \<^verbatim>\<open>ToNumber\<close>, applied by the operator \<^verbatim>\<open>*\<close>. On \<^verbatim>\<open>undefined\<close>, \<^verbatim>\<open>null\<close>, booleans and
  numbers it is written out. On strings, arrays and objects the language goes through
  \<^verbatim>\<open>StringToNumber\<close> and \<^verbatim>\<open>ToPrimitive\<close>; that part of the platform is the parameter
  \<open>ToNumber_other\<close> (it may throw, it may give \<^verbatim>\<open>NaN\<close>).
\<close>

fun ToNumber :: "(json \<Rightarrow> js_error + int option) \<Rightarrow> json option \<Rightarrow> js_error + int option" where
  "ToNumber ToNumber_other None = Inr None"
| "ToNumber ToNumber_other (Some JNull) = Inr (Some 0)"
| "ToNumber ToNumber_other (Some (JBool b)) = Inr (Some (if b then 1 else 0))"
| "ToNumber ToNumber_other (Some (JNum n)) = Inr (Some n)"
| "ToNumber ToNumber_other (Some v) = ToNumber_other v"

text \<open>\<^verbatim>\<open>a * b\<close> and \<^verbatim>\<open>a > b\<close> on numbers: \<^verbatim>\<open>NaN\<close> makes the product \<^verbatim>\<open>NaN\<close> and the comparison false.\<close>

fun js_times :: "int option \<Rightarrow> int \<Rightarrow> int option" where
  "js_times None b = None"
| "js_times (Some a) b = Some (a * b)"

fun js_greater :: "int option \<Rightarrow> int \<Rightarrow> bool" where
  "js_greater None b = False"
| "js_greater (Some a) b = (a > b)"

section \<open>Token decoding: \<^verbatim>\<open>JSON.parse(atob(token.split('.')[1]))\<close>\<close>

text \<open>\<^verbatim>\<open>s.split('.')\<close>: the segments between the separators; never an empty array.\<close>

fun split :: "char \<Rightarrow> string \<Rightarrow> string list" where
  "split sep [] = [[]]"
| "split sep (c # cs) =
     (if c = sep then [] # split sep cs
      else (case split sep cs of
              [] \<Rightarrow> [[c]]
            | seg # segs \<Rightarrow> (c # seg) # segs))"

text \<open>\<^verbatim>\<open>xs[1]\<close>: the second element, \<^verbatim>\<open>undefined\<close> when there is none.\<close>

fun index1 :: "'a list \<Rightarrow> 'a option" where
  "index1 (x # y # ys) = Some y"
| "index1 xs = None"

text \<open>
  \<^verbatim>\<open>atob\<close> is the browser's forgiving base64 decoder. It removes ASCII whitespace,
  removes one or two trailing \<^verbatim>\<open>=\<close> when the length is a multiple of four, fails on
  a length of one modulo four and on every character outside the base64 alphabet, and
  turns each group of 6-bit values into bytes. Its argument is converted to a string
  first, so \<^verbatim>\<open>atob(undefined)\<close> decodes the nine characters \<^verbatim>\<open>undefined\<close>.
\<close>

definition ascii_whitespace :: "char \<Rightarrow> bool" where
  "ascii_whitespace c = (of_char c \<in> {9, 10, 12, 13, 32 :: int})"

definition base64_value :: "char \<Rightarrow> int option" where
  "base64_value c =
     (let n = of_char c :: int
      in if 65 \<le> n \<and> n \<le> 90 then Some (n - 65)
         else if 97 \<le> n \<and> n \<le> 122 then Some (n - 71)
         else if 48 \<le> n \<and> n \<le> 57 then Some (n + 4)
         else if n = 43 then Some 62
         else if n = 47 then Some 63
         else None)"

fun strip_padding :: "string \<Rightarrow> string" where
  "strip_padding d =
     (if length d mod 4 = 0 then
        (if 2 \<le> length d \<and> drop (length d - 2) d = ''=='' then take (length d - 2) d
         else if 1 \<le> length d \<and> drop (length d - 1) d = ''='' then take (length d - 1) d
         else d)
      else d)"

fun base64_bytes :: "int list \<Rightarrow> string" where
  "base64_bytes (a # b # c # d # rest) =
     (let n = ((a * 64 + b) * 64 + c) * 64 + d
      in char_of (n div 65536) # char_of (n div 256 mod 256) # char_of (n mod 256)
           # base64_bytes rest)"
| "base64_bytes [a, b, c] =
     (let n = ((a * 64 + b) * 64 + c) div 4
      in [char_of (n div 256), char_of (n mod 256)])"
| "base64_bytes [a, b] = [char_of ((a * 64 + b) div 16)]"
| "base64_bytes xs = []"

definition atob :: "string \<Rightarrow> string option" where
  "atob s =
     (let d = strip_padding (filter (\<lambda>c. \<not> ascii_whitespace c) s)
      in if length d mod 4 = 1 then None
         else map_option base64_bytes (those (map base64_value d)))"

definition to_string_arg :: "string option \<Rightarrow> string" where
  "to_string_arg a = (case a of None \<Rightarrow> ''undefined'' | Some s \<Rightarrow> s)"

text \<open>
  \<^verbatim>\<open>JSON.parse\<close> is taken as a parameter of the model: a function from the text to the
  value, \<open>None\<close> where it throws a \<^verbatim>\<open>SyntaxError\<close>.
\<close>

definition decode_payload :: "(string \<Rightarrow> json option) \<Rightarrow> string \<Rightarrow> js_error + json" where
  "decode_payload JSON_parse tok =
     (case atob (to_string_arg (index1 (split CHR ''.'' tok))) of
        None \<Rightarrow> Inl InvalidCharacterError
      | Some text \<Rightarrow>
          (case JSON_parse text of
             None \<Rightarrow> Inl SyntaxError
           | Some payload \<Rightarrow> Inr payload))"

section \<open>The API helper \<^verbatim>\<open>apiCall\<close>\<close>

text \<open>
  The request configuration that \<^verbatim>\<open>apiCall\<close> hands to \<^verbatim>\<open>axios\<close>, and what \<^verbatim>\<open>axios\<close>
  gives back: a response, or a thrown error that carries the server's response when there
  was one (and none on a network failure). \<^verbatim>\<open>axios\<close> itself and the environment value
  \<^verbatim>\<open>REACT_APP_BACKEND_URL\<close> are parameters of the model.
\<close>

record config =
  http_method :: string
  url :: string
  headers :: "(string \<times> string) list"
  data :: "json option"

record response =
  status :: int
  response_data :: json

record axios_error =
  message :: string
  error_response :: "response option"

text \<open>What \<^verbatim>\<open>apiCall\<close> throws: \<^verbatim>\<open>error.response?.data || error\<close>.\<close>

datatype thrown = ResponseData json | AxiosError axios_error

text \<open>One argument of a \<^verbatim>\<open>console.error\<close> call; a call is the list of its arguments.\<close>

datatype logged = LogString string | LogJson json | LogThrown thrown

definition API :: "string \<Rightarrow> string" where
  "API BACKEND_URL = BACKEND_URL @ ''/api''"

definition request_config :: "string \<Rightarrow> string \<Rightarrow> string \<Rightarrow> json option \<Rightarrow> string option \<Rightarrow> config" where
  "request_config BACKEND_URL endpoint meth dat tok =
     (let config0 = \<lparr>http_method = meth, url = API BACKEND_URL @ endpoint, headers = [], data = None\<rparr>;
          config1 = (case tok of
                       Some t \<Rightarrow>
                         if truthy_string tok
                         then config0\<lparr>headers := headers config0 @ [(''Authorization'', ''Bearer '' @ t)]\<rparr>
                         else config0
                     | None \<Rightarrow> config0);
          config2 = (if truthy_data dat
                     then config1\<lparr>data := dat,
                            headers := headers config1 @ [(''Content-Type'', ''application/json'')]\<rparr>
                     else config1)
      in config2)"

definition thrown_value :: "axios_error \<Rightarrow> thrown" where
  "thrown_value error =
     (case error_response error of
        None \<Rightarrow> AxiosError error
      | Some r \<Rightarrow> if truthy_json (response_data r) then ResponseData (response_data r)
                  else AxiosError error)"

definition logged_value :: "axios_error \<Rightarrow> logged" where
  "logged_value error =
     (case error_response error of
        None \<Rightarrow> LogString (message error)
      | Some r \<Rightarrow> if truthy_json (response_data r) then LogJson (response_data r)
                  else LogString (message error))"

text \<open>
  \<^verbatim>\<open>apiCall\<close> returns the response's data, or fails with the thrown value; the second
  component is the console after the call.
\<close>

definition apiCall ::
  "(config \<Rightarrow> axios_error + response) \<Rightarrow> string \<Rightarrow> string \<Rightarrow> string \<Rightarrow> json option
     \<Rightarrow> string option \<Rightarrow> logged list list \<Rightarrow> (thrown + json) \<times> logged list list" where
  "apiCall axios BACKEND_URL endpoint meth dat tok con =
     (case axios (request_config BACKEND_URL endpoint meth dat tok) of
        Inr resp \<Rightarrow> (Inr (response_data resp), con)
      | Inl error \<Rightarrow>
          (Inl (thrown_value error), con @ [[LogString ''API Error:'', logged_value error]]))"

section \<open>Browser state and the \<^verbatim>\<open>AuthProvider\<close>\<close>

text \<open>
  \<^verbatim>\<open>localStorage\<close> is a map from keys to strings; \<^verbatim>\<open>console\<close> collects the
  \<^verbatim>\<open>console.error\<close> calls and \<^verbatim>\<open>alerts\<close> the \<^verbatim>\<open>alert\<close> dialogs shown to the user.
\<close>

definition getItem :: "(string \<rightharpoonup> string) \<Rightarrow> string \<Rightarrow> string option" where
  "getItem ls k = ls k"

definition setItem :: "(string \<rightharpoonup> string) \<Rightarrow> string \<Rightarrow> string \<Rightarrow> (string \<rightharpoonup> string)" where
  "setItem ls k v = ls(k \<mapsto> v)"

definition removeItem :: "(string \<rightharpoonup> string) \<Rightarrow> string \<Rightarrow> (string \<rightharpoonup> string)" where
  "removeItem ls k = ls(k := None)"

record browser =
  localStorage :: "string \<rightharpoonup> string"
  console :: "logged list list"
  alerts :: "string list"

record user_info =
  id' :: "json option"
  user_type :: "json option"

text \<open>The three \<^verbatim>\<open>useState\<close> cells of the \<^verbatim>\<open>AuthProvider\<close>, on top of the browser.\<close>

record auth_state = browser +
  user :: "user_info option"
  token :: "string option"
  loading :: bool

definition AuthProvider_initial :: "'a browser_scheme \<Rightarrow> auth_state" where
  "AuthProvider_initial b =
     \<lparr>localStorage = localStorage b, console = console b, alerts = alerts b,
      user = None, token = getItem (localStorage b) ''token'', loading = True\<rparr>"

text \<open>
  The \<^verbatim>\<open>try\<close> block of the effect, up to the decision: an exception (\<open>Inl\<close>), the
  \<^verbatim>\<open>else\<close> branch (\<open>Inr None\<close>), or the user handed to \<^verbatim>\<open>setUser\<close>.
\<close>

definition check_token ::
  "(string \<Rightarrow> json option) \<Rightarrow> (json \<Rightarrow> js_error + int option) \<Rightarrow> int \<Rightarrow> string
     \<Rightarrow> js_error + user_info option" where
  "check_token JSON_parse ToNumber_other now tok =
     (case decode_payload JSON_parse tok of
        Inl e \<Rightarrow> Inl e
      | Inr payload \<Rightarrow>
          (case member_read payload ''exp'' of
             Inl e \<Rightarrow> Inl e
           | Inr exp \<Rightarrow>
               (case ToNumber ToNumber_other exp of
                  Inl e \<Rightarrow> Inl e
                | Inr n \<Rightarrow>
                    if js_greater (js_times n 1000) now then
                      (case member_read payload ''user_id'' of
                         Inl e \<Rightarrow> Inl e
                       | Inr uid \<Rightarrow>
                           (case member_read payload ''user_type'' of
                              Inl e \<Rightarrow> Inl e
                            | Inr utype \<Rightarrow> Inr (Some \<lparr>id' = uid, user_type = utype\<rparr>)))
                    else Inr None)))"

text \<open>The body of \<^verbatim>\<open>useEffect(..., [token])\<close>, run at the time \<open>now\<close> (\<^verbatim>\<open>Date.now()\<close>).\<close>

definition useEffect_body ::
  "(string \<Rightarrow> json option) \<Rightarrow> (json \<Rightarrow> js_error + int option) \<Rightarrow> int \<Rightarrow> auth_state
     \<Rightarrow> auth_state" where
  "useEffect_body JSON_parse ToNumber_other now s =
     (let s1 =
        (case token s of
           None \<Rightarrow> s
         | Some tok \<Rightarrow>
             if truthy_string (token s) then
               (case check_token JSON_parse ToNumber_other now tok of
                  Inr (Some u) \<Rightarrow> s\<lparr>user := Some u\<rparr>
                | Inr None \<Rightarrow>
                    s\<lparr>localStorage := removeItem (localStorage s) ''token'', token := None\<rparr>
                | Inl e \<Rightarrow>
                    s\<lparr>console := console s @ [[LogString ''Invalid token'']],
                      localStorage := removeItem (localStorage s) ''token'', token := None\<rparr>)
             else s)
      in s1\<lparr>loading := False\<rparr>)"

text \<open>
  React runs the effect after the first render, and again after every render in which
  \<^verbatim>\<open>token\<close> differs from its value at the previous render. The effect changes \<^verbatim>\<open>token\<close>
  only to \<^verbatim>\<open>null\<close>, and on \<^verbatim>\<open>null\<close> it leaves \<^verbatim>\<open>token\<close> alone, so a second run is the
  last one.
\<close>

definition rerender ::
  "(string \<Rightarrow> json option) \<Rightarrow> (json \<Rightarrow> js_error + int option) \<Rightarrow> int \<Rightarrow> string option
     \<Rightarrow> auth_state \<Rightarrow> auth_state" where
  "rerender JSON_parse ToNumber_other now previous s =
     (if token s = previous then s
      else (let s1 = useEffect_body JSON_parse ToNumber_other now s
            in if token s1 = token s then s1
               else useEffect_body JSON_parse ToNumber_other now s1))"

text \<open>Start-up: the initial state, the effect of the first render, and the renders it causes.\<close>

definition restore ::
  "(string \<Rightarrow> json option) \<Rightarrow> (json \<Rightarrow> js_error + int option) \<Rightarrow> int \<Rightarrow> browser
     \<Rightarrow> auth_state" where
  "restore JSON_parse ToNumber_other now b =
     (let s0 = AuthProvider_initial b;
          s1 = useEffect_body JSON_parse ToNumber_other now s0
      in rerender JSON_parse ToNumber_other now (token s0) s1)"

definition login :: "string \<Rightarrow> user_info option \<Rightarrow> auth_state \<Rightarrow> auth_state" where
  "login newToken userData s =
     s\<lparr>localStorage := setItem (localStorage s) ''token'' newToken,
       token := Some newToken, user := userData\<rparr>"

definition logout :: "auth_state \<Rightarrow> auth_state" where
  "logout s =
     s\<lparr>localStorage := removeItem (localStorage s) ''token'', token := None, user := None\<rparr>"

text \<open>\<open>login\<close> followed by the render it causes (the effect runs when \<^verbatim>\<open>token\<close> has changed).\<close>

definition login_rendered ::
  "(string \<Rightarrow> json option) \<Rightarrow> (json \<Rightarrow> js_error + int option) \<Rightarrow> int \<Rightarrow> string
     \<Rightarrow> user_info option \<Rightarrow> auth_state \<Rightarrow> auth_state" where
  "login_rendered JSON_parse ToNumber_other now newToken userData s =
     rerender JSON_parse ToNumber_other now (token s) (login newToken userData s)"

text \<open>
  The session invariant: a user is present exactly when a credential is present, in the
  state and in \<^verbatim>\<open>localStorage\<close>, and the start-up check is over.
\<close>

definition session_invariant :: "auth_state \<Rightarrow> bool" where
  "session_invariant s =
     ((user s \<noteq> None) =
      (truthy_string (token s) \<and> truthy_string (getItem (localStorage s) ''token'')
       \<and> \<not> loading s))"

section \<open>View selection: \<^verbatim>\<open>App\<close> and \<^verbatim>\<open>Dashboard\<close>\<close>

text \<open>
  The top-level views: the spinner, the public store, the admin panel of \<^verbatim>\<open>App\<close> (a
  navigation bar over the \<^verbatim>\<open>AdminConfigPanel\<close>), the bare \<^verbatim>\<open>AdminConfigPanel\<close> of
  \<^verbatim>\<open>Dashboard\<close>, and the generic dashboard.
\<close>

datatype view =
    LoadingIndicator
  | PublicStore
  | AdminPanel
  | AdminConfigPanel
  | GenericDashboard

text \<open>\<^verbatim>\<open>user?.user_type === 'admin'\<close>\<close>

definition is_admin :: "user_info option \<Rightarrow> bool" where
  "is_admin u = (case u of None \<Rightarrow> False | Some v \<Rightarrow> user_type v = Some (JStr ''admin''))"

definition Dashboard :: "auth_state \<Rightarrow> view" where
  "Dashboard s = (if is_admin (user s) then AdminConfigPanel else GenericDashboard)"

definition renderAdminContent :: "auth_state \<Rightarrow> view" where
  "renderAdminContent s =
     (if is_admin (user s) then AdminPanel else Dashboard s)"

definition App :: "auth_state \<Rightarrow> view" where
  "App s =
     (if loading s then LoadingIndicator
      else (case user s of
              Some u \<Rightarrow> renderAdminContent s
            | None \<Rightarrow> PublicStore))"

section \<open>The admin settings screens\<close>

text \<open>
  \<^verbatim>\<open>renderMarketingTab\<close> and \<^verbatim>\<open>renderSystemTab\<close> hold the edit buffer, the \<^verbatim>\<open>loading\<close>
  flag and the \<^verbatim>\<open>saving\<close> flag that disables the save button. Their
  \<^verbatim>\<open>handleSaveSettings\<close> differ in the endpoint and in two texts only.
\<close>

record settings_screen = browser +
  settings :: json
  loading_settings :: bool
  saving :: bool

text \<open>The state while the request is in flight: \<^verbatim>\<open>setSaving(true)\<close>.\<close>

definition save_started :: "settings_screen \<Rightarrow> settings_screen" where
  "save_started s = s\<lparr>saving := True\<rparr>"

definition save_settings ::
  "string \<Rightarrow> string \<Rightarrow> string \<Rightarrow> (config \<Rightarrow> axios_error + response) \<Rightarrow> string
     \<Rightarrow> string option \<Rightarrow> settings_screen \<Rightarrow> settings_screen" where
  "save_settings endpoint saved_text log_text axios BACKEND_URL tok s =
     (let s1 = save_started s;
          result = apiCall axios BACKEND_URL endpoint ''POST'' (Some (settings s1)) tok (console s1);
          s2 = s1\<lparr>console := snd result\<rparr>;
          s3 = (case fst result of
                  Inr ack \<Rightarrow> s2\<lparr>alerts := alerts s2 @ [saved_text]\<rparr>
                | Inl error \<Rightarrow>
                    s2\<lparr>console := console s2 @ [[LogString log_text, LogThrown error]],
                       alerts := alerts s2 @ [''Error saving settings'']\<rparr>)
      in s3\<lparr>saving := False\<rparr>)"

definition handleSaveSettings_marketing ::
  "(config \<Rightarrow> axios_error + response) \<Rightarrow> string \<Rightarrow> string option \<Rightarrow> settings_screen
     \<Rightarrow> settings_screen" where
  "handleSaveSettings_marketing =
     save_settings ''/admin/settings/marketing'' ''Marketing settings saved successfully!''
       ''Error saving marketing settings:''"

definition handleSaveSettings_system ::
  "(config \<Rightarrow> axios_error + response) \<Rightarrow> string \<Rightarrow> string option \<Rightarrow> settings_screen
     \<Rightarrow> settings_screen" where
  "handleSaveSettings_system =
     save_settings ''/admin/settings/system'' ''System settings saved successfully!''
       ''Error saving system settings:''"

text \<open>The save button: \<^verbatim>\<open>disabled={saving}\<close>.\<close>

definition save_enabled :: "settings_screen \<Rightarrow> bool" where
  "save_enabled s = (\<not> saving s)"

section \<open>Sample inputs\<close>

text \<open>
  Two credentials in the three-segment form, whose middle segments are the base64 of the
  claim texts below, and a fragment of \<^verbatim>\<open>JSON.parse\<close>: on these two texts it returns what
  \<^verbatim>\<open>JSON.parse\<close> returns, on every other text it fails. They serve to run the model on
  concrete inputs; every general theorem is stated for an arbitrary \<open>JSON_parse\<close>.
\<close>

definition admin_token :: string where
  "admin_token = ''h.eyJleHAiOjIwMDAwMDAwMDAsInVzZXJfaWQiOjcsInVzZXJfdHlwZSI6ImFkbWluIn0.s''"

definition seller_token :: string where
  "seller_token = ''h.eyJleHAiOjIwMDAwMDAwMDAsInVzZXJfaWQiOjgsInVzZXJfdHlwZSI6InNlbGxlciJ9.s''"

definition admin_token_resigned :: string where
  "admin_token_resigned = ''other-header.eyJleHAiOjIwMDAwMDAwMDAsInVzZXJfaWQiOjcsInVzZXJfdHlwZSI6ImFkbWluIn0.forged''"

definition admin_claims :: json where
  "admin_claims = JObj [(''exp'', JNum 2000000000), (''user_id'', JNum 7), (''user_type'', JStr ''admin'')]"

definition seller_claims :: json where
  "seller_claims = JObj [(''exp'', JNum 2000000000), (''user_id'', JNum 8), (''user_type'', JStr ''seller'')]"

definition JSON_parse_sample :: "string \<Rightarrow> json option" where
  \<open>JSON_parse_sample text =
     (if text = ''{"exp":2000000000,"user_id":7,"user_type":"admin"}'' then Some admin_claims
      else if text = ''{"exp":2000000000,"user_id":8,"user_type":"seller"}'' then Some seller_claims
      else None)\<close>

definition admin_user :: user_info where
  "admin_user = \<lparr>id' = Some (JNum 7), user_type = Some (JStr ''admin'')\<rparr>"

text \<open>A backend that rejects the save with status 400, and a network that is down.\<close>

definition smtp_rejected :: axios_error where
  "smtp_rejected =
     \<lparr>message = ''Request failed with status code 400'',
      error_response = Some \<lparr>status = 400,
        response_data = JObj [(''detail'', JStr ''Invalid SMTP key'')]\<rparr>\<rparr>"

definition network_down :: axios_error where
  "network_down = \<lparr>message = ''Network Error'', error_response = None\<rparr>"

definition axios_smtp_rejected :: "config \<Rightarrow> axios_error + response" where
  "axios_smtp_rejected c = Inl smtp_rejected"

definition axios_network_down :: "config \<Rightarrow> axios_error + response" where
  "axios_network_down c = Inl network_down"

definition marketing_screen :: settings_screen where
  "marketing_screen =
     \<lparr>localStorage = Map.empty, console = [], alerts = [],
      settings = JObj [(''smtp_key'', JStr ''k'')], loading_settings = False, saving = False\<rparr>"

definition NaN_other :: "json \<Rightarrow> js_error + int option" where
  "NaN_other v = Inr None"

definition stored :: "string \<Rightarrow> browser" where
  "stored tok = \<lparr>localStorage = [''token'' \<mapsto> tok], console = [], alerts = []\<rparr>"

definition empty_browser :: browser where
  "empty_browser = \<lparr>localStorage = Map.empty, console = [], alerts = []\<rparr>"

section \<open>The effect and start-up, case by case\<close>

lemma atob_undefined: "atob ''undefined'' = None"
  by code_simp

lemma decode_payload_empty: "decode_payload JSON_parse [] = Inl InvalidCharacterError"
  by (simp add: decode_payload_def to_string_arg_def atob_undefined)

lemma check_token_empty: "check_token JSON_parse ToNumber_other now [] = Inl InvalidCharacterError"
  by (simp add: check_token_def decode_payload_empty)

lemma useEffect_body_absent:
  "\<not> truthy_string (token s) \<Longrightarrow> useEffect_body JSON_parse ToNumber_other now s = s\<lparr>loading := False\<rparr>"
  by (cases "token s") (simp_all add: useEffect_body_def)

lemma useEffect_body_valid:
  "token s = Some tok \<Longrightarrow> tok \<noteq> [] \<Longrightarrow> check_token JSON_parse ToNumber_other now tok = Inr (Some u)
   \<Longrightarrow> useEffect_body JSON_parse ToNumber_other now s = s\<lparr>user := Some u, loading := False\<rparr>"
  by (simp add: useEffect_body_def)

lemma useEffect_body_expired:
  "token s = Some tok \<Longrightarrow> tok \<noteq> [] \<Longrightarrow> check_token JSON_parse ToNumber_other now tok = Inr None
   \<Longrightarrow> useEffect_body JSON_parse ToNumber_other now s =
        s\<lparr>localStorage := removeItem (localStorage s) ''token'', token := None, loading := False\<rparr>"
  by (simp add: useEffect_body_def)

lemma useEffect_body_invalid:
  "token s = Some tok \<Longrightarrow> tok \<noteq> [] \<Longrightarrow> check_token JSON_parse ToNumber_other now tok = Inl e
   \<Longrightarrow> useEffect_body JSON_parse ToNumber_other now s =
        s\<lparr>console := console s @ [[LogString ''Invalid token'']],
          localStorage := removeItem (localStorage s) ''token'', token := None, loading := False\<rparr>"
  by (simp add: useEffect_body_def)

lemma useEffect_body_token:
  "token (useEffect_body JSON_parse ToNumber_other now s) = token s
   \<or> token (useEffect_body JSON_parse ToNumber_other now s) = None"
  by (simp add: useEffect_body_def split: option.splits sum.splits)

lemma useEffect_body_settled:
  "token s = None \<Longrightarrow> token (useEffect_body JSON_parse ToNumber_other now s) = None"
  by (simp add: useEffect_body_absent)

lemma restore_absent:
  "\<not> truthy_string (getItem (localStorage b) ''token'') \<Longrightarrow>
   restore JSON_parse ToNumber_other now b = (AuthProvider_initial b)\<lparr>loading := False\<rparr>"
  by (simp add: restore_def rerender_def Let_def useEffect_body_absent AuthProvider_initial_def)

lemma restore_valid:
  "getItem (localStorage b) ''token'' = Some tok \<Longrightarrow>
   check_token JSON_parse ToNumber_other now tok = Inr (Some u) \<Longrightarrow>
   restore JSON_parse ToNumber_other now b =
     (AuthProvider_initial b)\<lparr>user := Some u, loading := False\<rparr>"
proof -
  assume a: "getItem (localStorage b) ''token'' = Some tok"
    and c: "check_token JSON_parse ToNumber_other now tok = Inr (Some u)"
  have ne: "tok \<noteq> []" using c by (auto simp: check_token_empty)
  have t0: "token (AuthProvider_initial b) = Some tok" using a by (simp add: AuthProvider_initial_def)
  show ?thesis
    by (simp add: restore_def rerender_def Let_def useEffect_body_valid [OF t0 ne c] t0)
qed

lemma restore_expired:
  "getItem (localStorage b) ''token'' = Some tok \<Longrightarrow>
   check_token JSON_parse ToNumber_other now tok = Inr None \<Longrightarrow>
   restore JSON_parse ToNumber_other now b =
     (AuthProvider_initial b)\<lparr>localStorage := removeItem (localStorage b) ''token'',
        token := None, loading := False\<rparr>"
proof -
  assume a: "getItem (localStorage b) ''token'' = Some tok"
    and c: "check_token JSON_parse ToNumber_other now tok = Inr None"
  have ne: "tok \<noteq> []" using c by (auto simp: check_token_empty)
  have t0: "token (AuthProvider_initial b) = Some tok" using a by (simp add: AuthProvider_initial_def)
  have l0: "localStorage (AuthProvider_initial b) = localStorage b" by (simp add: AuthProvider_initial_def)
  show ?thesis
    by (simp add: restore_def rerender_def Let_def useEffect_body_expired [OF t0 ne c] t0 l0
        useEffect_body_absent)
qed

lemma restore_invalid:
  "getItem (localStorage b) ''token'' = Some tok \<Longrightarrow> tok \<noteq> [] \<Longrightarrow>
   check_token JSON_parse ToNumber_other now tok = Inl e \<Longrightarrow>
   restore JSON_parse ToNumber_other now b =
     (AuthProvider_initial b)\<lparr>console := console b @ [[LogString ''Invalid token'']],
        localStorage := removeItem (localStorage b) ''token'',
        token := None, loading := False\<rparr>"
proof -
  assume a: "getItem (localStorage b) ''token'' = Some tok" and ne: "tok \<noteq> []"
    and c: "check_token JSON_parse ToNumber_other now tok = Inl e"
  have t0: "token (AuthProvider_initial b) = Some tok" using a by (simp add: AuthProvider_initial_def)
  have l0: "localStorage (AuthProvider_initial b) = localStorage b"
    "console (AuthProvider_initial b) = console b" by (simp_all add: AuthProvider_initial_def)
  show ?thesis
    by (simp add: restore_def rerender_def Let_def useEffect_body_invalid [OF t0 ne c] t0 l0
        useEffect_body_absent)
qed

lemma check_token_numeric_exp:
  "decode_payload JSON_parse tok = Inr payload \<Longrightarrow>
   member_read payload ''exp'' = Inr (Some (JNum expires_at)) \<Longrightarrow>
   check_token JSON_parse ToNumber_other now tok =
     (if expires_at * 1000 > now
      then (case member_read payload ''user_id'' of
              Inl e \<Rightarrow> Inl e
            | Inr uid \<Rightarrow>
                (case member_read payload ''user_type'' of
                   Inl e \<Rightarrow> Inl e
                 | Inr utype \<Rightarrow> Inr (Some \<lparr>id' = uid, user_type = utype\<rparr>)))
      else Inr None)"
  by (simp add: check_token_def)

lemma member_read_not_null:
  "member_read payload k = Inr v \<Longrightarrow> \<exists>w. member_read payload k' = Inr w"
  by (cases payload) simp_all

lemma seconds_milliseconds: "(e * 1000 \<le> now) = (e \<le> now div 1000)" for e now :: int
proof -
  define q r where "q = now div 1000" and "r = now mod 1000"
  have "now = 1000 * q + r" "0 \<le> r" "r < 1000"
    by (simp_all add: q_def r_def)
  then show ?thesis
    unfolding q_def [symmetric] by arith
qed

lemma decode_admin_token: "decode_payload JSON_parse_sample admin_token = Inr admin_claims"
  by code_simp

lemma decode_seller_token: "decode_payload JSON_parse_sample seller_token = Inr seller_claims"
  by code_simp

lemma restore_user:
  "user (restore JSON_parse ToNumber_other now b) =
     (case getItem (localStorage b) ''token'' of
        None \<Rightarrow> None
      | Some tok \<Rightarrow>
          (case check_token JSON_parse ToNumber_other now tok of
             Inr (Some u) \<Rightarrow> Some u
           | Inr None \<Rightarrow> None
           | Inl e \<Rightarrow> None))"
proof (cases "getItem (localStorage b) ''token''")
  case None
  then show ?thesis
    by (simp add: restore_absent AuthProvider_initial_def)
next
  case (Some tok)
  show ?thesis
  proof (cases "tok = []")
    case True
    with Some show ?thesis
      by (simp add: restore_absent AuthProvider_initial_def check_token_empty)
  next
    case False
    show ?thesis
    proof (cases "check_token JSON_parse ToNumber_other now tok")
      case (Inl e)
      from restore_invalid [OF Some False Inl] Some Inl show ?thesis
        by (simp add: AuthProvider_initial_def)
    next
      case (Inr res)
      show ?thesis
      proof (cases res)
        case None
        from restore_expired [OF Some Inr [unfolded None]] Some Inr None show ?thesis
          by (simp add: AuthProvider_initial_def)
      next
        case (Some u)
        from restore_valid [OF \<open>getItem (localStorage b) ''token'' = Some tok\<close> Inr [unfolded Some]]
          \<open>getItem (localStorage b) ''token'' = Some tok\<close> Inr Some show ?thesis
          by (simp add: AuthProvider_initial_def)
      qed
    qed
  qed
qed

lemma restore_token:
  "truthy_string (token (restore JSON_parse ToNumber_other now b)) =
     (user (restore JSON_parse ToNumber_other now b) \<noteq> None)"
  and restore_storage:
  "truthy_string (getItem (localStorage (restore JSON_parse ToNumber_other now b)) ''token'') =
     (user (restore JSON_parse ToNumber_other now b) \<noteq> None)"
  and restore_loading:
  "loading (restore JSON_parse ToNumber_other now b) = False"
proof -
  let ?r = "restore JSON_parse ToNumber_other now b"
  have "truthy_string (token ?r) = (user ?r \<noteq> None)
      \<and> truthy_string (getItem (localStorage ?r) ''token'') = (user ?r \<noteq> None)
      \<and> loading ?r = False"
  proof (cases "getItem (localStorage b) ''token''")
    case None
    then show ?thesis
      by (simp add: restore_absent AuthProvider_initial_def)
  next
    case (Some tok)
    show ?thesis
    proof (cases "tok = []")
      case True
      with Some show ?thesis
        by (simp add: restore_absent AuthProvider_initial_def)
    next
      case False
      show ?thesis
      proof (cases "check_token JSON_parse ToNumber_other now tok")
        case (Inl e)
        from restore_invalid [OF Some False Inl] show ?thesis
          by (simp add: AuthProvider_initial_def getItem_def removeItem_def)
      next
        case (Inr res)
        show ?thesis
        proof (cases res)
          case None
          from restore_expired [OF Some Inr [unfolded None]] show ?thesis
            by (simp add: AuthProvider_initial_def getItem_def removeItem_def)
        next
          case (Some u)
          from restore_valid [OF \<open>getItem (localStorage b) ''token'' = Some tok\<close> Inr [unfolded Some]]
            \<open>getItem (localStorage b) ''token'' = Some tok\<close> False show ?thesis
            by (simp add: AuthProvider_initial_def)
        qed
      qed
    qed
  qed
  then show "truthy_string (token ?r) = (user ?r \<noteq> None)"
    and "truthy_string (getItem (localStorage ?r) ''token'') = (user ?r \<noteq> None)"
    and "loading ?r = False"
    by simp_all
qed

lemma App_cases:
  "App s =
     (if loading s then LoadingIndicator
      else (case user s of
              None \<Rightarrow> PublicStore
            | Some u \<Rightarrow> if user_type u = Some (JStr ''admin'') then AdminPanel else GenericDashboard))"
  by (simp add: App_def renderAdminContent_def Dashboard_def is_admin_def split: option.splits)

lemma decode_no_segment: "decode_payload JSON_parse ''not-a-jwt'' = Inl InvalidCharacterError"
  by code_simp

lemma App_restore:
  "App (restore JSON_parse ToNumber_other now b) =
     (case user (restore JSON_parse ToNumber_other now b) of
        None \<Rightarrow> PublicStore
      | Some u \<Rightarrow> if user_type u = Some (JStr ''admin'') then AdminPanel else GenericDashboard)"
  by (simp add: App_cases restore_loading)

lemma same_middle_segment:
  "index1 (split CHR ''.'' admin_token) = index1 (split CHR ''.'' admin_token_resigned)"
  by (simp add: admin_token_def admin_token_resigned_def)

section \<open>Expired credentials\<close>

text \<open>
  Claim C1. A stored credential whose payload decodes and carries a numeric \<^verbatim>\<open>exp\<close>
  (seconds) that is not after the current time is dropped at start-up: \<open>restore\<close> removes
  the \<^verbatim>\<open>token\<close> entry from \<^verbatim>\<open>localStorage\<close>, leaves no user, ends the loading phase and
  \<open>App\<close> renders the public store. The credential counts as expired exactly when
  \<open>exp * 1000 \<le> now\<close> for \<open>now\<close> in milliseconds, that is when \<open>exp\<close> is at most the
  current time in whole seconds; the boundary is expired.
\<close>

theorem restore_expired_credential:
  fixes ToNumber_other :: "json \<Rightarrow> js_error + int option" and now :: int
  assumes stored: "getItem (localStorage b) ''token'' = Some tok"
    and decoded: "decode_payload JSON_parse tok = Inr payload"
    and exp: "member_read payload ''exp'' = Inr (Some (JNum expires_at))"
  defines "r \<equiv> restore JSON_parse ToNumber_other now b"
  shows "(expires_at * 1000 \<le> now \<longrightarrow>
            getItem (localStorage r) ''token'' = None \<and> token r = None \<and> user r = None
            \<and> \<not> loading r \<and> App r = PublicStore)
       \<and> ((user r = None) = (expires_at * 1000 \<le> now))
       \<and> ((user r = None) = (expires_at \<le> now div 1000))"
proof (cases "expires_at * 1000 \<le> now")
  case True
  then have "check_token JSON_parse ToNumber_other now tok = Inr None"
    by (simp add: check_token_numeric_exp [OF decoded exp])
  from restore_expired [OF stored this]
  have "r = (AuthProvider_initial b)\<lparr>localStorage := removeItem (localStorage b) ''token'',
        token := None, loading := False\<rparr>"
    by (simp add: r_def)
  then have "getItem (localStorage r) ''token'' = None" "token r = None" "user r = None"
    "\<not> loading r" "App r = PublicStore"
    by (simp_all add: AuthProvider_initial_def getItem_def removeItem_def App_def)
  with True show ?thesis
    by (simp add: seconds_milliseconds)
next
  case False
  obtain uid where uid: "member_read payload ''user_id'' = Inr uid"
    using member_read_not_null [OF exp] by blast
  obtain utype where utype: "member_read payload ''user_type'' = Inr utype"
    using member_read_not_null [OF exp] by blast
  from False have "check_token JSON_parse ToNumber_other now tok
      = Inr (Some \<lparr>id' = uid, user_type = utype\<rparr>)"
    by (simp add: check_token_numeric_exp [OF decoded exp] uid utype)
  from restore_valid [OF stored this]
  have "user r \<noteq> None"
    by (simp add: r_def)
  with False show ?thesis
    by (simp add: seconds_milliseconds)
qed

theorem restore_expired_credential_witness:
  "getItem (localStorage (restore JSON_parse_sample NaN_other 2000000000000 (stored admin_token))) ''token'' = None
   \<and> user (restore JSON_parse_sample NaN_other 2000000000000 (stored admin_token)) = None
   \<and> App (restore JSON_parse_sample NaN_other 2000000000000 (stored admin_token)) = PublicStore
   \<and> user (restore JSON_parse_sample NaN_other 1999999999999 (stored admin_token)) \<noteq> None"
proof -
  have s: "getItem (localStorage (stored admin_token)) ''token'' = Some admin_token"
    by (simp add: stored_def getItem_def)
  have e: "member_read admin_claims ''exp'' = Inr (Some (JNum 2000000000))"
    by (simp add: admin_claims_def)
  show ?thesis
    using restore_expired_credential [where ToNumber_other = NaN_other and now = 2000000000000,
        OF s decode_admin_token e]
      restore_expired_credential [where ToNumber_other = NaN_other and now = 1999999999999,
        OF s decode_admin_token e]
    by simp
qed

section \<open>View selection\<close>

text \<open>
  Claim C2. \<open>App\<close> selects the view from the loading flag and the user's role alone: the
  loading indicator while loading, the public store without a user, the admin panel for
  a user whose \<^verbatim>\<open>user_type\<close> is the string \<^verbatim>\<open>admin\<close>, the generic dashboard for every
  other user (the admin branch inside \<open>Dashboard\<close> is never reached from \<open>App\<close>). At
  start-up the loading indicator is shown. For a stored credential whose payload decodes
  and carries a numeric \<^verbatim>\<open>exp\<close> after the current time, \<open>restore\<close> sets the user to the
  payload's \<^verbatim>\<open>user_id\<close> and \<^verbatim>\<open>user_type\<close>, and \<open>App\<close> then renders the admin panel when
  that role is \<^verbatim>\<open>admin\<close> and the generic dashboard otherwise.
\<close>

theorem view_selection:
  fixes ToNumber_other :: "json \<Rightarrow> js_error + int option" and now :: int
  assumes stored: "getItem (localStorage b) ''token'' = Some tok"
    and decoded: "decode_payload JSON_parse tok = Inr payload"
    and exp: "member_read payload ''exp'' = Inr (Some (JNum expires_at))"
    and unexpired: "now < expires_at * 1000"
    and role: "member_read payload ''user_type'' = Inr role"
  defines "r \<equiv> restore JSON_parse ToNumber_other now b"
  shows "App s =
           (if loading s then LoadingIndicator
            else (case user s of
                    None \<Rightarrow> PublicStore
                  | Some u \<Rightarrow>
                      if user_type u = Some (JStr ''admin'') then AdminPanel else GenericDashboard))
       \<and> App (AuthProvider_initial b) = LoadingIndicator
       \<and> (\<exists>uid. user r = Some \<lparr>id' = uid, user_type = role\<rparr>)
       \<and> App r = (if role = Some (JStr ''admin'') then AdminPanel else GenericDashboard)"
proof -
  obtain uid where uid: "member_read payload ''user_id'' = Inr uid"
    using member_read_not_null [OF exp] by blast
  from unexpired have "check_token JSON_parse ToNumber_other now tok
      = Inr (Some \<lparr>id' = uid, user_type = role\<rparr>)"
    by (simp add: check_token_numeric_exp [OF decoded exp] uid role)
  from restore_valid [OF stored this]
  have u: "user r = Some \<lparr>id' = uid, user_type = role\<rparr>" and l: "\<not> loading r"
    by (simp_all add: r_def)
  have "App r = (if role = Some (JStr ''admin'') then AdminPanel else GenericDashboard)"
    by (simp add: App_cases [of r] u l)
  moreover have "App (AuthProvider_initial b) = LoadingIndicator"
    by (simp add: App_def AuthProvider_initial_def)
  ultimately show ?thesis
    using u App_cases [of s] by simp
qed

theorem view_selection_witness:
  "App (restore JSON_parse_sample NaN_other 1700000000000 (stored admin_token)) = AdminPanel
   \<and> App (restore JSON_parse_sample NaN_other 1700000000000 (stored seller_token)) = GenericDashboard
   \<and> App (AuthProvider_initial (stored admin_token)) = LoadingIndicator"
proof -
  have sa: "getItem (localStorage (stored admin_token)) ''token'' = Some admin_token"
    and ss: "getItem (localStorage (stored seller_token)) ''token'' = Some seller_token"
    by (simp_all add: stored_def getItem_def)
  have ea: "member_read admin_claims ''exp'' = Inr (Some (JNum 2000000000))"
    and ra: "member_read admin_claims ''user_type'' = Inr (Some (JStr ''admin''))"
    by (simp_all add: admin_claims_def)
  have es: "member_read seller_claims ''exp'' = Inr (Some (JNum 2000000000))"
    and rs: "member_read seller_claims ''user_type'' = Inr (Some (JStr ''seller''))"
    by (simp_all add: seller_claims_def)
  have t: "(1700000000000 :: int) < 2000000000 * 1000"
    by simp
  show ?thesis
    using view_selection [where ToNumber_other = NaN_other and s = "AuthProvider_initial empty_browser",
        OF sa decode_admin_token ea t ra]
      view_selection [where ToNumber_other = NaN_other and s = "AuthProvider_initial empty_browser",
        OF ss decode_seller_token es t rs]
    by simp
qed

section \<open>Undecodable credentials\<close>

text \<open>
  Claim C6. When the stored credential cannot be decoded (no second segment, a second
  segment that \<^verbatim>\<open>atob\<close> rejects, or a text that \<^verbatim>\<open>JSON.parse\<close> rejects), \<open>restore\<close> ends
  with no user, with no credential in the state or in \<^verbatim>\<open>localStorage\<close> (none that the
  code's own test \<^verbatim>\<open>if (token)\<close> accepts), not loading, and \<open>App\<close> renders the public
  store; no alert is shown. For a non-empty stored string the \<^verbatim>\<open>token\<close> entry is removed
  from \<^verbatim>\<open>localStorage\<close> and the only trace of the failure is the line
  \<^verbatim>\<open>Invalid token\<close> on the developer console. (The empty string is what \<^verbatim>\<open>if (token)\<close>
  takes for no credential: the effect skips it.)
\<close>

theorem restore_undecodable_credential:
  fixes ToNumber_other :: "json \<Rightarrow> js_error + int option" and now :: int
  assumes stored: "getItem (localStorage b) ''token'' = Some tok"
    and undecodable: "decode_payload JSON_parse tok = Inl e"
  defines "r \<equiv> restore JSON_parse ToNumber_other now b"
  shows "user r = None \<and> \<not> truthy_string (token r)
       \<and> \<not> truthy_string (getItem (localStorage r) ''token'')
       \<and> \<not> loading r \<and> App r = PublicStore \<and> alerts r = alerts b
       \<and> (tok \<noteq> [] \<longrightarrow>
            token r = None \<and> localStorage r = removeItem (localStorage b) ''token''
            \<and> getItem (localStorage r) ''token'' = None
            \<and> console r = console b @ [[LogString ''Invalid token'']])"
proof -
  have c: "check_token JSON_parse ToNumber_other now tok = Inl e"
    by (simp add: check_token_def undecodable)
  have u: "user r = None"
    by (simp add: r_def restore_user stored c)
  have a: "alerts r = alerts b"
  proof (cases "tok = []")
    case True
    with stored show ?thesis
      by (simp add: r_def restore_absent AuthProvider_initial_def)
  next
    case False
    from restore_invalid [OF stored False c] show ?thesis
      by (simp add: r_def AuthProvider_initial_def)
  qed
  have n: "tok \<noteq> [] \<longrightarrow>
            token r = None \<and> localStorage r = removeItem (localStorage b) ''token''
            \<and> getItem (localStorage r) ''token'' = None
            \<and> console r = console b @ [[LogString ''Invalid token'']]"
  proof
    assume ne: "tok \<noteq> []"
    from restore_invalid [OF stored ne c]
    show "token r = None \<and> localStorage r = removeItem (localStorage b) ''token''
            \<and> getItem (localStorage r) ''token'' = None
            \<and> console r = console b @ [[LogString ''Invalid token'']]"
      by (simp add: r_def AuthProvider_initial_def getItem_def removeItem_def)
  qed
  from u have "\<not> truthy_string (token r)"
    "\<not> truthy_string (getItem (localStorage r) ''token'')" "\<not> loading r"
    by (simp_all add: r_def restore_token restore_storage restore_loading)
  moreover from u \<open>\<not> loading r\<close> have "App r = PublicStore"
    by (simp add: App_cases [of r])
  ultimately show ?thesis
    using u a n by blast
qed

theorem restore_undecodable_credential_witness:
  "user (restore JSON_parse_sample NaN_other 1700000000000 (stored ''not-a-jwt'')) = None
   \<and> getItem (localStorage (restore JSON_parse_sample NaN_other 1700000000000 (stored ''not-a-jwt''))) ''token'' = None
   \<and> App (restore JSON_parse_sample NaN_other 1700000000000 (stored ''not-a-jwt'')) = PublicStore
   \<and> alerts (restore JSON_parse_sample NaN_other 1700000000000 (stored ''not-a-jwt'')) = []"
proof -
  have s: "getItem (localStorage (stored ''not-a-jwt'')) ''token'' = Some ''not-a-jwt''"
    by (simp add: stored_def getItem_def)
  have a: "alerts (stored ''not-a-jwt'') = []"
    by (simp add: stored_def)
  show ?thesis
    using restore_undecodable_credential [where ToNumber_other = NaN_other
        and now = 1700000000000 and JSON_parse = JSON_parse_sample, OF s decode_no_segment] a
    by (simp add: getItem_def removeItem_def)
qed

section \<open>Decoding reads the middle segment only\<close>

text \<open>
  Claim C10. Two credentials with the same second \<^verbatim>\<open>.\<close>-separated segment (or both
  without one) decode to the same result, so the \<^verbatim>\<open>try\<close> block of the effect decides the
  same for both. Started on stores that hold the one and the other, \<open>restore\<close> ends with
  the same user, the same loading flag, a credential present in the state and in
  \<^verbatim>\<open>localStorage\<close> for both or for neither, and \<open>App\<close> renders the same view: the header
  and signature segments have no influence.
\<close>

theorem decode_depends_on_middle_segment:
  fixes JSON_parse :: "string \<Rightarrow> json option"
    and ToNumber_other :: "json \<Rightarrow> js_error + int option" and now :: int
  assumes same: "index1 (split CHR ''.'' tok1) = index1 (split CHR ''.'' tok2)"
    and stored1: "getItem (localStorage b1) ''token'' = Some tok1"
    and stored2: "getItem (localStorage b2) ''token'' = Some tok2"
  defines "r1 \<equiv> restore JSON_parse ToNumber_other now b1"
    and "r2 \<equiv> restore JSON_parse ToNumber_other now b2"
  shows "decode_payload JSON_parse tok1 = decode_payload JSON_parse tok2
       \<and> check_token JSON_parse ToNumber_other now tok1 = check_token JSON_parse ToNumber_other now tok2
       \<and> user r1 = user r2 \<and> loading r1 = loading r2
       \<and> truthy_string (token r1) = truthy_string (token r2)
       \<and> truthy_string (getItem (localStorage r1) ''token'')
           = truthy_string (getItem (localStorage r2) ''token'')
       \<and> App r1 = App r2"
proof -
  have d: "decode_payload JSON_parse tok1 = decode_payload JSON_parse tok2"
    by (simp add: decode_payload_def same)
  then have c: "check_token JSON_parse ToNumber_other now tok1
      = check_token JSON_parse ToNumber_other now tok2"
    by (simp add: check_token_def)
  have u: "user r1 = user r2"
    by (simp add: r1_def r2_def restore_user stored1 stored2 c)
  then have "truthy_string (token r1) = truthy_string (token r2)"
    "truthy_string (getItem (localStorage r1) ''token'')
       = truthy_string (getItem (localStorage r2) ''token'')"
    "loading r1 = loading r2" "App r1 = App r2"
    by (simp_all add: r1_def r2_def restore_token restore_storage restore_loading App_restore)
  with d c u show ?thesis
    by simp
qed

theorem decode_depends_on_middle_segment_witness:
  "decode_payload JSON_parse_sample admin_token_resigned = Inr admin_claims
   \<and> user (restore JSON_parse_sample NaN_other 1700000000000 (stored admin_token_resigned))
       = user (restore JSON_parse_sample NaN_other 1700000000000 (stored admin_token))
   \<and> App (restore JSON_parse_sample NaN_other 1700000000000 (stored admin_token_resigned))
       = App (restore JSON_parse_sample NaN_other 1700000000000 (stored admin_token))"
proof -
  have s1: "getItem (localStorage (stored admin_token)) ''token'' = Some admin_token"
    and s2: "getItem (localStorage (stored admin_token_resigned)) ''token'' = Some admin_token_resigned"
    by (simp_all add: stored_def getItem_def)
  show ?thesis
    using decode_depends_on_middle_segment [where JSON_parse = JSON_parse_sample
        and ToNumber_other = NaN_other and now = 1700000000000, OF same_middle_segment s1 s2]
      decode_admin_token
    by simp
qed

section \<open>Login, logout and the session store\<close>

text \<open>
  Claim C7. After \<open>login\<close> and then \<open>logout\<close> the \<^verbatim>\<open>token\<close> entry of \<^verbatim>\<open>localStorage\<close> is
  gone, for every credential, user and earlier state, whether or not React has run the
  effect in between. \<open>logout\<close> is a total function (it cannot fail), it leaves no user,
  no token and no stored entry, and a second \<open>logout\<close> changes nothing: neither the
  call nor the render after it.
\<close>

theorem login_logout_clears_store:
  "getItem (localStorage (logout (login credential userData s))) ''token'' = None
   \<and> getItem (localStorage (logout (rerender JSON_parse ToNumber_other now (token s)
          (login credential userData s)))) ''token'' = None
   \<and> user (logout s) = None \<and> token (logout s) = None
   \<and> getItem (localStorage (logout s)) ''token'' = None
   \<and> logout (logout s) = logout s
   \<and> rerender JSON_parse ToNumber_other now (token (logout s)) (logout (logout s)) = logout s"
  by (simp add: logout_def login_def getItem_def removeItem_def rerender_def)

text \<open>
  Claim C8. Writing a credential under the key \<^verbatim>\<open>token\<close> and reading that key returns
  the credential, whatever was stored before: \<^verbatim>\<open>setItem\<close> then \<^verbatim>\<open>getItem\<close>, and
  \<open>login\<close> followed by the read that initialises the \<^verbatim>\<open>token\<close> state of a newly mounted
  \<^verbatim>\<open>AuthProvider\<close>.
\<close>

theorem session_store_round_trip:
  "getItem (setItem ls ''token'' credential) ''token'' = Some credential
   \<and> getItem (localStorage (login credential userData s)) ''token'' = Some credential
   \<and> token (AuthProvider_initial (login credential userData s)) = Some credential
   \<and> getItem (setItem (setItem ls ''token'' previous) ''token'' credential) ''token'' = Some credential"
  by (simp add: login_def getItem_def setItem_def AuthProvider_initial_def)

section \<open>The session invariant\<close>

lemma session_invariant_initial: "session_invariant (AuthProvider_initial b)"
  by (simp add: session_invariant_def AuthProvider_initial_def)

lemma session_invariant_restore: "session_invariant (restore JSON_parse ToNumber_other now b)"
  by (simp add: session_invariant_def restore_token restore_storage restore_loading)

lemma session_invariant_logout: "session_invariant (logout s)"
  by (simp add: session_invariant_def logout_def)

lemma session_invariant_login_valid:
  assumes "token s \<noteq> Some credential"
    and "check_token JSON_parse ToNumber_other now credential = Inr (Some u)"
  shows "session_invariant (login_rendered JSON_parse ToNumber_other now credential userData s)"
proof -
  have ne: "credential \<noteq> []"
    using assms(2) by (auto simp: check_token_empty)
  have t: "token (login credential userData s) = Some credential"
    by (simp add: login_def)
  from useEffect_body_valid [OF t ne assms(2)] assms(1) ne show ?thesis
    by (simp add: login_rendered_def rerender_def Let_def t session_invariant_def)
      (simp add: login_def getItem_def setItem_def)
qed

lemma anonymous_start:
  "restore JSON_parse ToNumber_other now empty_browser =
     \<lparr>localStorage = Map.empty, console = [], alerts = [],
      user = None, token = None, loading = False\<rparr>"
  by (simp add: restore_absent empty_browser_def getItem_def AuthProvider_initial_def)

lemma check_token_no_segment:
  "check_token JSON_parse ToNumber_other now ''not-a-jwt'' = Inl InvalidCharacterError"
  by (simp add: check_token_def decode_no_segment)

text \<open>
  Claim C3. The invariant holds in the initial state, after \<open>restore\<close>, after \<open>logout\<close>
  and after a \<open>login\<close> whose credential passes the effect's check (the four lemmas
  above). It fails after a \<open>login\<close> whose credential the effect rejects: the effect
  removes the \<^verbatim>\<open>token\<close> entry and sets \<^verbatim>\<open>token\<close> to \<^verbatim>\<open>null\<close>, as \<open>logout\<close> does, but
  it does not call \<^verbatim>\<open>setUser(null)\<close>. Evaluated from the anonymous state on the
  credential \<^verbatim>\<open>not-a-jwt\<close> and an admin user: the user stays, no credential is left in the
  state or in \<^verbatim>\<open>localStorage\<close>, and \<open>App\<close> renders the admin panel.
\<close>

theorem login_undecodable_keeps_user:
  "user (login_rendered JSON_parse ToNumber_other now ''not-a-jwt'' (Some admin_user)
           (restore JSON_parse ToNumber_other now empty_browser)) = Some admin_user
   \<and> token (login_rendered JSON_parse ToNumber_other now ''not-a-jwt'' (Some admin_user)
           (restore JSON_parse ToNumber_other now empty_browser)) = None
   \<and> getItem (localStorage (login_rendered JSON_parse ToNumber_other now ''not-a-jwt'' (Some admin_user)
           (restore JSON_parse ToNumber_other now empty_browser))) ''token'' = None
   \<and> App (login_rendered JSON_parse ToNumber_other now ''not-a-jwt'' (Some admin_user)
           (restore JSON_parse ToNumber_other now empty_browser)) = AdminPanel
   \<and> \<not> session_invariant (login_rendered JSON_parse ToNumber_other now ''not-a-jwt'' (Some admin_user)
           (restore JSON_parse ToNumber_other now empty_browser))"
proof -
  let ?s0 = "restore JSON_parse ToNumber_other now empty_browser"
  let ?s1 = "login ''not-a-jwt'' (Some admin_user) ?s0"
  have t: "token ?s1 = Some ''not-a-jwt''"
    by (simp add: login_def)
  have e: "useEffect_body JSON_parse ToNumber_other now ?s1 =
      ?s1\<lparr>console := console ?s1 @ [[LogString ''Invalid token'']],
        localStorage := removeItem (localStorage ?s1) ''token'', token := None, loading := False\<rparr>"
    by (rule useEffect_body_invalid [OF t _ check_token_no_segment]) simp
  have r: "login_rendered JSON_parse ToNumber_other now ''not-a-jwt'' (Some admin_user) ?s0 =
      \<lparr>localStorage = Map.empty, console = [[LogString ''Invalid token'']], alerts = [],
       user = Some admin_user, token = None, loading = False\<rparr>"
    unfolding login_rendered_def rerender_def Let_def e
    by (simp add: useEffect_body_absent)
      (simp add: anonymous_start login_def removeItem_def setItem_def)
  show ?thesis
    unfolding r
    by (simp add: getItem_def App_cases session_invariant_def admin_user_def)
qed

text \<open>The same happens with a well-formed credential that has expired at login time.\<close>

lemma check_token_admin_expired:
  "check_token JSON_parse_sample NaN_other 2000000000000 admin_token = Inr None"
proof -
  have e: "member_read admin_claims ''exp'' = Inr (Some (JNum 2000000000))"
    by (simp add: admin_claims_def)
  show ?thesis
    by (simp add: check_token_numeric_exp [OF decode_admin_token e])
qed

lemma login_expired_keeps_user:
  "user (login_rendered JSON_parse_sample NaN_other 2000000000000 admin_token (Some admin_user)
           (restore JSON_parse_sample NaN_other 2000000000000 empty_browser)) = Some admin_user
   \<and> token (login_rendered JSON_parse_sample NaN_other 2000000000000 admin_token (Some admin_user)
           (restore JSON_parse_sample NaN_other 2000000000000 empty_browser)) = None"
proof -
  let ?s0 = "restore JSON_parse_sample NaN_other 2000000000000 empty_browser"
  let ?s1 = "login admin_token (Some admin_user) ?s0"
  have t: "token ?s1 = Some admin_token"
    by (simp add: login_def)
  have ne: "admin_token \<noteq> []"
    by (simp add: admin_token_def)
  have e: "useEffect_body JSON_parse_sample NaN_other 2000000000000 ?s1 =
      ?s1\<lparr>localStorage := removeItem (localStorage ?s1) ''token'', token := None, loading := False\<rparr>"
    by (rule useEffect_body_expired [OF t ne check_token_admin_expired])
  show ?thesis
    unfolding login_rendered_def rerender_def Let_def e
    by (simp add: useEffect_body_absent)
      (simp add: anonymous_start login_def)
qed

section \<open>The request built by \<^verbatim>\<open>apiCall\<close>\<close>

text \<open>
  Claim C9. The request goes to the configured base endpoint followed by \<^verbatim>\<open>/api\<close> and the
  path, with the given method. It carries the header \<^verbatim>\<open>Authorization: Bearer\<close> plus the
  credential exactly when a credential is supplied, and the body together with the header
  \<^verbatim>\<open>Content-Type: application/json\<close> exactly when a body is present; "supplied" and
  "present" are the code's tests \<^verbatim>\<open>if (token)\<close> and \<^verbatim>\<open>if (data)\<close>, which take \<^verbatim>\<open>null\<close> and
  the empty string (for a body also \<^verbatim>\<open>false\<close> and \<^verbatim>\<open>0\<close>) for absent. \<^verbatim>\<open>axios\<close> is called
  on this configuration and on nothing else.
\<close>

theorem request_config_built:
  "url (request_config BACKEND_URL endpoint meth dat tok) = BACKEND_URL @ ''/api'' @ endpoint
   \<and> http_method (request_config BACKEND_URL endpoint meth dat tok) = meth
   \<and> map_of (headers (request_config BACKEND_URL endpoint meth dat tok)) ''Authorization''
       = (if truthy_string tok then map_option (\<lambda>t. ''Bearer '' @ t) tok else None)
   \<and> map_of (headers (request_config BACKEND_URL endpoint meth dat tok)) ''Content-Type''
       = (if truthy_data dat then Some ''application/json'' else None)
   \<and> data (request_config BACKEND_URL endpoint meth dat tok)
       = (if truthy_data dat then dat else None)
   \<and> apiCall axios BACKEND_URL endpoint meth dat tok con
       = apiCall (\<lambda>c. axios (request_config BACKEND_URL endpoint meth dat tok))
           BACKEND_URL endpoint meth dat tok con"
  by (cases tok) (simp_all add: request_config_def API_def apiCall_def)

section \<open>Failures of \<^verbatim>\<open>apiCall\<close>\<close>

text \<open>
  Claim C5, as the code has it. When \<^verbatim>\<open>axios\<close> fails, \<^verbatim>\<open>apiCall\<close> throws the body of the
  server's response when there is a response with a truthy body, and nothing but that
  body (the status is not attached); otherwise, on a failure without a response or with
  an empty body, it throws the error of \<^verbatim>\<open>axios\<close> itself, unchanged. It writes one line
  to the console and substitutes no message of its own.
\<close>

theorem apiCall_failure:
  assumes "axios (request_config BACKEND_URL endpoint meth dat tok) = Inl error"
  shows "fst (apiCall axios BACKEND_URL endpoint meth dat tok con) =
           Inl (case error_response error of
                  None \<Rightarrow> AxiosError error
                | Some r \<Rightarrow>
                    if truthy_json (response_data r) then ResponseData (response_data r)
                    else AxiosError error)
       \<and> snd (apiCall axios BACKEND_URL endpoint meth dat tok con) =
           con @ [[LogString ''API Error:'', logged_value error]]"
  using assms by (simp add: apiCall_def thrown_value_def)

theorem apiCall_failure_witness:
  "fst (apiCall axios_smtp_rejected ''https://backend'' ''/admin/settings/marketing'' ''POST''
          (Some (JObj [])) (Some ''t'') [])
     = Inl (ResponseData (JObj [(''detail'', JStr ''Invalid SMTP key'')]))"
  using apiCall_failure [where axios = axios_smtp_rejected and error = smtp_rejected
      and BACKEND_URL = "''https://backend''" and endpoint = "''/admin/settings/marketing''"
      and meth = "''POST''" and dat = "Some (JObj [])" and tok = "Some ''t''" and con = "[]"]
  by (simp add: smtp_rejected_def axios_smtp_rejected_def)

text \<open>
  The claim as stated fails: with the network down the thrown value is the raw error of
  \<^verbatim>\<open>axios\<close>, and on a rejected request it is the bare response body, in which no status
  is found.
\<close>

theorem apiCall_rethrows_raw_error:
  "fst (apiCall axios_network_down ''https://backend'' ''/admin/settings/marketing'' ''POST''
          (Some (JObj [])) (Some ''t'') [])
     = Inl (AxiosError \<lparr>message = ''Network Error'', error_response = None\<rparr>)
   \<and> fst (apiCall axios_smtp_rejected ''https://backend'' ''/admin/settings/marketing'' ''POST''
          (Some (JObj [])) (Some ''t'') [])
     = Inl (ResponseData (JObj [(''detail'', JStr ''Invalid SMTP key'')]))
   \<and> member_read (JObj [(''detail'', JStr ''Invalid SMTP key'')]) ''status'' = Inr None"
  by (simp add: apiCall_def thrown_value_def network_down_def smtp_rejected_def
      axios_network_down_def axios_smtp_rejected_def)

section \<open>A failed save on a settings screen\<close>

lemma save_settings_failure:
  assumes "axios (request_config BACKEND_URL endpoint ''POST'' (Some (settings s)) tok) = Inl error"
  shows "save_settings endpoint saved_text log_text axios BACKEND_URL tok s =
           s\<lparr>console := console s @ [[LogString ''API Error:'', logged_value error],
                                      [LogString log_text, LogThrown (thrown_value error)]],
             alerts := alerts s @ [''Error saving settings''], saving := False\<rparr>"
  using assms by (simp add: save_settings_def save_started_def apiCall_def Let_def)

lemma save_settings_success:
  assumes "axios (request_config BACKEND_URL endpoint ''POST'' (Some (settings s)) tok) = Inr resp"
  shows "save_settings endpoint saved_text log_text axios BACKEND_URL tok s =
           s\<lparr>alerts := alerts s @ [saved_text], saving := False\<rparr>"
  using assms by (simp add: save_settings_def save_started_def apiCall_def Let_def)

text \<open>
  Claim C4, as the code has it. When the save request of the marketing settings screen
  fails, whatever the server sent, the screen shows the fixed alert
  \<^verbatim>\<open>Error saving settings\<close>; the edit buffer is unchanged; the save button, disabled
  while the request was in flight, is enabled again; the server's message goes to the
  console only.
\<close>

theorem save_failure_generic_alert:
  assumes "axios (request_config BACKEND_URL ''/admin/settings/marketing'' ''POST''
             (Some (settings s)) tok) = Inl error"
  shows "alerts (handleSaveSettings_marketing axios BACKEND_URL tok s)
           = alerts s @ [''Error saving settings'']
       \<and> settings (handleSaveSettings_marketing axios BACKEND_URL tok s) = settings s
       \<and> save_enabled (handleSaveSettings_marketing axios BACKEND_URL tok s)
       \<and> \<not> save_enabled (save_started s)
       \<and> console (handleSaveSettings_marketing axios BACKEND_URL tok s)
           = console s @ [[LogString ''API Error:'', logged_value error],
               [LogString ''Error saving marketing settings:'', LogThrown (thrown_value error)]]"
  by (simp add: handleSaveSettings_marketing_def save_enabled_def save_started_def
      save_settings_failure [where axios = axios and error = error, OF assms])

theorem save_failure_generic_alert_witness:
  "alerts (handleSaveSettings_marketing axios_smtp_rejected ''https://backend'' (Some ''t'')
      marketing_screen) = [''Error saving settings'']
   \<and> settings (handleSaveSettings_marketing axios_smtp_rejected ''https://backend'' (Some ''t'')
      marketing_screen) = JObj [(''smtp_key'', JStr ''k'')]
   \<and> save_enabled (handleSaveSettings_marketing axios_smtp_rejected ''https://backend'' (Some ''t'')
      marketing_screen)"
  using save_failure_generic_alert [where axios = axios_smtp_rejected and error = smtp_rejected
      and BACKEND_URL = "''https://backend''" and tok = "Some ''t''" and s = marketing_screen]
  by (simp add: marketing_screen_def axios_smtp_rejected_def)

text \<open>
  The claim as stated fails: on a response with status 400 and the message
  \<^verbatim>\<open>Invalid SMTP key\<close> the only alert is \<^verbatim>\<open>Error saving settings\<close>.
\<close>

theorem save_failure_hides_server_message:
  "alerts (handleSaveSettings_marketing axios_smtp_rejected ''https://backend'' (Some ''t'')
      marketing_screen) = [''Error saving settings'']
   \<and> ''Invalid SMTP key'' \<notin> set (alerts (handleSaveSettings_marketing axios_smtp_rejected
      ''https://backend'' (Some ''t'') marketing_screen))"
  by (simp add: handleSaveSettings_marketing_def save_settings_def save_started_def apiCall_def
      Let_def marketing_screen_def axios_smtp_rejected_def smtp_rejected_def)

text \<open>The system settings screen behaves in the same way.\<close>

lemma system_save_failure:
  assumes "axios (request_config BACKEND_URL ''/admin/settings/system'' ''POST''
             (Some (settings s)) tok) = Inl error"
  shows "alerts (handleSaveSettings_system axios BACKEND_URL tok s)
           = alerts s @ [''Error saving settings'']
       \<and> settings (handleSaveSettings_system axios BACKEND_URL tok s) = settings s
       \<and> save_enabled (handleSaveSettings_system axios BACKEND_URL tok s)"
  by (simp add: handleSaveSettings_system_def save_enabled_def
      save_settings_failure [where axios = axios and error = error, OF assms])

end
